theory Spec2Isabelle
  imports Main
begin

section \<open>Data model\<close>

text \<open>
  Modelled from the spec: the declarations of \<^verbatim>\<open>@/types/task\<close> (\<^verbatim>\<open>Task\<close>,
  \<^verbatim>\<open>TaskStatus\<close>, \<^verbatim>\<open>TaskPriority\<close>) are not among the sources. The types below
  follow section 3 of the specification and the way the sources use them: the object
  literal of \<^verbatim>\<open>handleAddTask\<close> (App.tsx) lists the eight fields of a task,
  \<^verbatim>\<open>getAvailableStatuses\<close> (TaskList.tsx) lists the four statuses and
  \<^verbatim>\<open>getPriorityColor\<close> the three priorities. A JavaScript \<^verbatim>\<open>Date\<close> is its
  time value, an integer; an optional field is an \<open>option\<close>. The field \<^verbatim>\<open>id\<close>
  is called \<open>task_id\<close>, since \<open>id\<close> is the identity function of HOL.
\<close>

type_synonym date = int

datatype TaskStatus = TODO | IN_PROGRESS | COMPLETED | CANCELLED

datatype TaskPriority = Low | Medium | High

record Task =
  task_id :: string
  title :: string
  description :: "string option"
  priority :: TaskPriority
  status :: TaskStatus
  createdAt :: date
  updatedAt :: date
  dueDate :: "date option"

text \<open>
  A \<^verbatim>\<open>Partial<Task>\<close> object literal is the list of its \<^verbatim>\<open>key: value\<close> entries, in
  the order they are written. The spread \<^verbatim>\<open>{ ...task, ...updates }\<close> copies the task
  and then assigns every entry of \<^verbatim>\<open>updates\<close>.
\<close>

datatype TaskField =
    F_id string
  | F_title string
  | F_description "string option"
  | F_priority TaskPriority
  | F_status TaskStatus
  | F_createdAt date
  | F_updatedAt date
  | F_dueDate "date option"

fun assign :: "TaskField \<Rightarrow> Task \<Rightarrow> Task" where
  "assign (F_id v) t = t\<lparr>task_id := v\<rparr>"
| "assign (F_title v) t = t\<lparr>title := v\<rparr>"
| "assign (F_description v) t = t\<lparr>description := v\<rparr>"
| "assign (F_priority v) t = t\<lparr>priority := v\<rparr>"
| "assign (F_status v) t = t\<lparr>status := v\<rparr>"
| "assign (F_createdAt v) t = t\<lparr>createdAt := v\<rparr>"
| "assign (F_updatedAt v) t = t\<lparr>updatedAt := v\<rparr>"
| "assign (F_dueDate v) t = t\<lparr>dueDate := v\<rparr>"

definition spread :: "Task \<Rightarrow> TaskField list \<Rightarrow> Task" where
  "spread task updates = fold assign updates task"

section \<open>The task lifecycle (TaskList.tsx, App.tsx)\<close>

text \<open>
  The state \<^verbatim>\<open>confirmModal\<close> of \<^verbatim>\<open>TaskList\<close> (TaskList.tsx, lines 15-19): one
  record, with the value it is created with and reset to.
\<close>

record ConfirmModal =
  isOpen :: bool
  taskId :: string
  newStatus :: TaskStatus

definition closedModal :: ConfirmModal where
  "closedModal = \<lparr>isOpen = False, taskId = [], newStatus = TODO\<rparr>"

text \<open>
  The handlers of \<^verbatim>\<open>TaskList\<close> return nothing (\<^verbatim>\<open>void\<close>). All they do is call the
  state setter \<^verbatim>\<open>setConfirmModal\<close> and the callback \<^verbatim>\<open>onTaskUpdate\<close>; a handler
  is modelled as the list of the calls it makes, in order. A bare \<^verbatim>\<open>return\<close> makes no
  call: the empty list. \<^verbatim>\<open>new Date()\<close> is the parameter \<open>now\<close>.
\<close>

datatype call =
    SetConfirmModal ConfirmModal
  | OnTaskUpdate string "TaskField list"

definition handleStatusChange :: "Task list \<Rightarrow> date \<Rightarrow> string \<Rightarrow> TaskStatus \<Rightarrow> call list" where
  "handleStatusChange ts now taskId' newStatus' =
     (case find (\<lambda>t. task_id t = taskId') ts of
        None \<Rightarrow> []
      | Some task \<Rightarrow>
          if status task = CANCELLED then []
          else if newStatus' = CANCELLED then
            [SetConfirmModal \<lparr>isOpen = True, taskId = taskId', newStatus = newStatus'\<rparr>]
          else [OnTaskUpdate taskId' [F_status newStatus', F_updatedAt now]])"

definition handleConfirmStatusChange :: "ConfirmModal \<Rightarrow> date \<Rightarrow> call list" where
  "handleConfirmStatusChange cm now =
     [OnTaskUpdate (taskId cm) [F_status (newStatus cm), F_updatedAt now],
      SetConfirmModal closedModal]"

text \<open>The \<^verbatim>\<open>onClose\<close> that \<^verbatim>\<open>TaskList\<close> passes to the modal (line 205).\<close>

definition onClose :: "call list" where
  "onClose = [SetConfirmModal closedModal]"

text \<open>
  \<^verbatim>\<open>ConfirmationModal\<close>: nothing is rendered unless \<^verbatim>\<open>isOpen\<close> (\<open>None\<close>); otherwise
  it offers two buttons, given here by what a click runs: the cancel button runs
  \<^verbatim>\<open>onClose\<close>, the confirm button runs \<^verbatim>\<open>handleConfirm\<close>, which is
  \<^verbatim>\<open>onConfirm(); onClose();\<close>.
\<close>

record buttons =
  cancelButton :: "call list"
  confirmButton :: "call list"

definition ConfirmationModal :: "bool \<Rightarrow> call list \<Rightarrow> call list \<Rightarrow> buttons option" where
  "ConfirmationModal isOpen' onClose' onConfirm' =
     (if \<not> isOpen' then None
      else Some \<lparr>cancelButton = onClose', confirmButton = onConfirm' @ onClose'\<rparr>)"

text \<open>\<^verbatim>\<open>handleTaskUpdate\<close> of \<^verbatim>\<open>Dashboard\<close> (App.tsx, lines 43-49).\<close>

definition handleTaskUpdate :: "string \<Rightarrow> TaskField list \<Rightarrow> Task list \<Rightarrow> Task list" where
  "handleTaskUpdate taskId' updates prevTasks =
     map (\<lambda>task. if task_id task = taskId' then spread task updates else task) prevTasks"

text \<open>
  The state of the application: \<^verbatim>\<open>tasks\<close> and the summary fields are the state of
  \<^verbatim>\<open>Dashboard\<close> (App.tsx, lines 20-25), \<^verbatim>\<open>confirmModal\<close> the state of the
  \<^verbatim>\<open>TaskList\<close> it renders. \<^verbatim>\<open>aiSummary\<close> is \<open>None\<close> when the value stored at
  run time is \<^verbatim>\<open>undefined\<close>.
\<close>

record App =
  tasks :: "Task list"
  isAISummaryModalOpen :: bool
  aiSummary :: "string option"
  isSummaryLoading :: bool
  summaryError :: "string option"
  confirmModal :: ConfirmModal

text \<open>
  What a call does to the state: \<^verbatim>\<open>setConfirmModal(v)\<close> stores \<open>v\<close>;
  \<^verbatim>\<open>onTaskUpdate\<close> is \<^verbatim>\<open>handleTaskUpdate\<close> (App.tsx, line 137), which replaces the
  collection through \<^verbatim>\<open>setTasks\<close>. Events are handled one at a time.
\<close>

fun perform :: "call \<Rightarrow> App \<Rightarrow> App" where
  "perform (SetConfirmModal v) s = s\<lparr>confirmModal := v\<rparr>"
| "perform (OnTaskUpdate taskId' updates) s = s\<lparr>tasks := handleTaskUpdate taskId' updates (tasks s)\<rparr>"

definition dispatch :: "call list \<Rightarrow> App \<Rightarrow> App" where
  "dispatch calls s = fold perform calls s"

text \<open>
  The three events of the lifecycle. \<open>changeStatus\<close> is a call of
  \<^verbatim>\<open>handleStatusChange\<close> on the rendered collection (the specification's
  \<^verbatim>\<open>requestTransition\<close>); \<open>clickConfirm\<close> and \<open>clickCancel\<close> are clicks on the two
  buttons of the modal that \<^verbatim>\<open>TaskList\<close> renders (lines 203-212), \<open>None\<close> when the
  modal is not rendered (\<^verbatim>\<open>confirmTransition\<close> and \<^verbatim>\<open>discardTransition\<close>).
  \<open>closeModal\<close> is \<^verbatim>\<open>onClose\<close> run on its own.
\<close>

definition changeStatus :: "date \<Rightarrow> string \<Rightarrow> TaskStatus \<Rightarrow> App \<Rightarrow> App" where
  "changeStatus now taskId' newStatus' s =
     dispatch (handleStatusChange (tasks s) now taskId' newStatus') s"

definition renderedModal :: "date \<Rightarrow> App \<Rightarrow> buttons option" where
  "renderedModal now s =
     ConfirmationModal (isOpen (confirmModal s)) onClose
       (handleConfirmStatusChange (confirmModal s) now)"

definition clickConfirm :: "date \<Rightarrow> App \<Rightarrow> App option" where
  "clickConfirm now s = map_option (\<lambda>b. dispatch (confirmButton b) s) (renderedModal now s)"

definition clickCancel :: "date \<Rightarrow> App \<Rightarrow> App option" where
  "clickCancel now s = map_option (\<lambda>b. dispatch (cancelButton b) s) (renderedModal now s)"

definition closeModal :: "App \<Rightarrow> App" where
  "closeModal s = dispatch onClose s"

section \<open>The summary of the active tasks (taskService, App.tsx)\<close>

text \<open>
  The record that \<^verbatim>\<open>getAISummary\<close> builds for a task is an object literal: the list of
  its keys with their values. A \<^verbatim>\<open>dueDate\<close> that is absent is the value
  \<^verbatim>\<open>undefined\<close> under its key. \<open>js_or a b\<close> is \<^verbatim>\<open>a || b\<close> on a string that may be
  \<^verbatim>\<open>undefined\<close>: the empty string is falsy.
\<close>

datatype fieldValue =
    Str string
  | Priority TaskPriority
  | Status TaskStatus
  | DateValue date
  | Undefined

type_synonym taskData = "(string \<times> fieldValue) list"

definition js_or :: "string option \<Rightarrow> string \<Rightarrow> string" where
  "js_or a b = (case a of None \<Rightarrow> b | Some x \<Rightarrow> if x = [] then b else x)"

definition isActive :: "Task \<Rightarrow> bool" where
  "isActive task = (status task = TODO \<or> status task = IN_PROGRESS)"

definition projectTask :: "Task \<Rightarrow> taskData" where
  "projectTask task =
     [(''title'', Str (title task)),
      (''description'', Str (js_or (description task) [])),
      (''priority'', Priority (priority task)),
      (''status'', Status (status task)),
      (''dueDate'', case dueDate task of None \<Rightarrow> Undefined | Some d \<Rightarrow> DateValue d)]"

text \<open>
  The external capability is \<^verbatim>\<open>taskApi.post('/ai/summarize-tasks', taskData)\<close>: a
  parameter \<open>post\<close> that, given the payload, either rejects with an error (whose
  \<^verbatim>\<open>message\<close> may be missing) or resolves with a response; of the response only
  \<^verbatim>\<open>response.data.summary\<close> is read, \<open>None\<close> when the data object has no such
  field. The errors that can reach the \<^verbatim>\<open>catch\<close> of \<^verbatim>\<open>handleAISummary\<close> are the
  \<^verbatim>\<open>Error\<close> thrown by \<^verbatim>\<open>getAISummary\<close> and the rejection of the request.
\<close>

datatype postResult =
    Rejects "string option"
  | Resolves "string option"

datatype error =
    NoActiveTasks
  | RequestFailed "string option"

fun message :: "error \<Rightarrow> string option" where
  "message NoActiveTasks = Some ''No active tasks to summarize''"
| "message (RequestFailed m) = m"

text \<open>
  \<^verbatim>\<open>getAISummary\<close> (taskService): the result is the error thrown or the value returned,
  together with the payloads posted to the external capability, in order.
\<close>

definition getAISummary ::
  "(taskData list \<Rightarrow> postResult) \<Rightarrow> Task list \<Rightarrow> (error + string option) \<times> taskData list list" where
  "getAISummary post ts =
     (let activeTasks = filter isActive ts in
      if length activeTasks = 0 then (Inl NoActiveTasks, [])
      else
        let taskData = map projectTask activeTasks in
        case post taskData of
          Rejects m \<Rightarrow> (Inl (RequestFailed m), [taskData])
        | Resolves summary \<Rightarrow> (Inr summary, [taskData]))"

text \<open>
  \<^verbatim>\<open>handleAISummary\<close> (App.tsx, lines 51-82). \<open>isIncomplete\<close> is the predicate of its
  own filter; \<open>handleAISummary_try\<close> is the \<^verbatim>\<open>try\<close> block: the error raised in it, or
  the value it passes to \<^verbatim>\<open>setAiSummary\<close>, with the payloads posted.
\<close>

definition isIncomplete :: "Task \<Rightarrow> bool" where
  "isIncomplete task = (status task = TODO \<or> status task = IN_PROGRESS)"

definition emptyNotice :: string where
  "emptyNotice = ''No incomplete tasks to summarize. All tasks are either completed or cancelled.''"

definition defaultFailure :: string where
  "defaultFailure = ''Failed to generate AI summary. Please try again later.''"

definition handleAISummary_try ::
  "(taskData list \<Rightarrow> postResult) \<Rightarrow> Task list \<Rightarrow> (error + string option) \<times> taskData list list" where
  "handleAISummary_try post ts =
     (let incompleteTasks = filter isIncomplete ts in
      if length incompleteTasks = 0 then (Inr (Some emptyNotice), [])
      else getAISummary post incompleteTasks)"

definition handleAISummary ::
  "(taskData list \<Rightarrow> postResult) \<Rightarrow> App \<Rightarrow> App \<times> taskData list list" where
  "handleAISummary post s =
     (let s1 = s\<lparr>isSummaryLoading := True, summaryError := None, aiSummary := Some [],
                 isAISummaryModalOpen := True\<rparr>;
          (r, posted) = handleAISummary_try post (tasks s);
          s2 = (case r of
                  Inr summary \<Rightarrow> s1\<lparr>aiSummary := summary\<rparr>
                | Inl e \<Rightarrow> s1\<lparr>summaryError := Some (js_or (message e) defaultFailure)\<rparr>)
      in (s2\<lparr>isSummaryLoading := False\<rparr>, posted))"

section \<open>Example states\<close>

text \<open>
  Four tasks, one in each status, and the state of a freshly mounted \<^verbatim>\<open>Dashboard\<close>
  that holds a given collection (every other piece of state at its initial value).
\<close>

definition reportTask :: Task where
  "reportTask = \<lparr>task_id = ''a'', title = ''Write report'', description = None,
     priority = Medium, status = CANCELLED, createdAt = 1, updatedAt = 2, dueDate = None\<rparr>"

definition shipTask :: Task where
  "shipTask = \<lparr>task_id = ''b'', title = ''Ship release'', description = Some ''v1'',
     priority = High, status = TODO, createdAt = 3, updatedAt = 3, dueDate = Some 9\<rparr>"

definition reviewTask :: Task where
  "reviewTask = \<lparr>task_id = ''c'', title = ''Review patch'', description = None,
     priority = Low, status = IN_PROGRESS, createdAt = 4, updatedAt = 5, dueDate = None\<rparr>"

definition doneTask :: Task where
  "doneTask = \<lparr>task_id = ''d'', title = ''Book room'', description = Some [],
     priority = Low, status = COMPLETED, createdAt = 1, updatedAt = 6, dueDate = None\<rparr>"

definition idle :: "Task list \<Rightarrow> App" where
  "idle ts = \<lparr>tasks = ts, isAISummaryModalOpen = False, aiSummary = Some [],
     isSummaryLoading = False, summaryError = None, confirmModal = closedModal\<rparr>"

text \<open>Two behaviours of the external capability: a timeout, and a response without a summary.\<close>

definition timesOut :: "taskData list \<Rightarrow> postResult" where
  "timesOut payload = Rejects (Some ''timeout of 1000ms exceeded'')"

definition noSummary :: "taskData list \<Rightarrow> postResult" where
  "noSummary payload = Resolves None"

section \<open>Basic facts\<close>

lemma dispatch_Nil: "dispatch [] s = s"
  by (simp add: dispatch_def)

lemma dispatch_Cons: "dispatch (c # cs) s = dispatch cs (perform c s)"
  by (simp add: dispatch_def)

lemma spread_status_updatedAt:
  "spread t [F_status st, F_updatedAt now] = t\<lparr>status := st, updatedAt := now\<rparr>"
  by (simp add: spread_def)

lemma handleTaskUpdate_status:
  "handleTaskUpdate i [F_status st, F_updatedAt now] ts =
     map (\<lambda>x. if task_id x = i then x\<lparr>status := st, updatedAt := now\<rparr> else x) ts"
  by (simp add: handleTaskUpdate_def spread_status_updatedAt)

lemma find_after_update:
  "find (\<lambda>x. task_id x = i) ts = Some t \<Longrightarrow>
   find (\<lambda>x. task_id x = i)
     (map (\<lambda>x. if task_id x = i then x\<lparr>status := st, updatedAt := now\<rparr> else x) ts) =
     Some (t\<lparr>status := st, updatedAt := now\<rparr>)"
  by (induction ts) (auto split: if_splits)

lemma find_other_after_update:
  "j \<noteq> i \<Longrightarrow>
   find (\<lambda>x. task_id x = j)
     (map (\<lambda>x. if task_id x = i then x\<lparr>status := st, updatedAt := now\<rparr> else x) ts) =
   find (\<lambda>x. task_id x = j) ts"
  by (induction ts) auto

text \<open>With unique ids, the id of a task of the collection resolves to that task.\<close>

lemma find_distinct:
  "distinct (map task_id ts) \<Longrightarrow> t \<in> set ts \<Longrightarrow> find (\<lambda>x. task_id x = task_id t) ts = Some t"
  by (induction ts) (auto simp: rev_image_eqI)

lemma request_cancel:
  assumes "find (\<lambda>x. task_id x = i) (tasks s) = Some t" and "status t \<noteq> CANCELLED"
  shows "handleStatusChange (tasks s) now i CANCELLED =
           [SetConfirmModal \<lparr>isOpen = True, taskId = i, newStatus = CANCELLED\<rparr>]"
    and "changeStatus now i CANCELLED s =
           s\<lparr>confirmModal := \<lparr>isOpen = True, taskId = i, newStatus = CANCELLED\<rparr>\<rparr>"
proof -
  show calls: "handleStatusChange (tasks s) now i CANCELLED =
      [SetConfirmModal \<lparr>isOpen = True, taskId = i, newStatus = CANCELLED\<rparr>]"
    using assms by (simp add: handleStatusChange_def)
  show "changeStatus now i CANCELLED s =
      s\<lparr>confirmModal := \<lparr>isOpen = True, taskId = i, newStatus = CANCELLED\<rparr>\<rparr>"
    by (simp add: changeStatus_def calls dispatch_Cons dispatch_Nil)
qed

lemma confirm_click:
  "clickConfirm now s =
     (if isOpen (confirmModal s) then
        Some (s\<lparr>tasks := map (\<lambda>x. if task_id x = taskId (confirmModal s)
                                  then x\<lparr>status := newStatus (confirmModal s), updatedAt := now\<rparr>
                                  else x) (tasks s),
                confirmModal := closedModal\<rparr>)
      else None)"
  by (simp add: clickConfirm_def renderedModal_def ConfirmationModal_def
      handleConfirmStatusChange_def onClose_def dispatch_Cons dispatch_Nil handleTaskUpdate_status)

lemma cancel_click:
  "clickCancel now s =
     (if isOpen (confirmModal s) then Some (s\<lparr>confirmModal := closedModal\<rparr>) else None)"
  by (simp add: clickCancel_def renderedModal_def ConfirmationModal_def onClose_def
      dispatch_Cons dispatch_Nil)

lemma isActive_isIncomplete: "isActive = isIncomplete"
  by (rule ext) (simp add: isActive_def isIncomplete_def)

lemma isActive_fun: "isActive = (\<lambda>t. status t = TODO \<or> status t = IN_PROGRESS)"
  by (rule ext) (simp add: isActive_def)

lemma exists_active:
  "(\<exists>t\<in>set ts. status t = TODO \<or> status t = IN_PROGRESS) \<longleftrightarrow> filter isActive ts \<noteq> []"
  by (auto simp: filter_empty_conv isActive_def)

lemma filter_isIncomplete_Nil:
  "\<forall>t\<in>set ts. status t = COMPLETED \<or> status t = CANCELLED \<Longrightarrow> filter isIncomplete ts = []"
  by (induction ts) (auto simp: isIncomplete_def)

lemma getAISummary_active:
  "filter isActive ts \<noteq> [] \<Longrightarrow>
   getAISummary post ts =
     (case post (map projectTask (filter isActive ts)) of
        Rejects m \<Rightarrow> (Inl (RequestFailed m), [map projectTask (filter isActive ts)])
      | Resolves x \<Rightarrow> (Inr x, [map projectTask (filter isActive ts)]))"
  by (simp add: getAISummary_def Let_def)

lemma handleAISummary_try_eq:
  "handleAISummary_try post ts =
     (if filter isActive ts = [] then (Inr (Some emptyNotice), [])
      else case post (map projectTask (filter isActive ts)) of
        Rejects m \<Rightarrow> (Inl (RequestFailed m), [map projectTask (filter isActive ts)])
      | Resolves x \<Rightarrow> (Inr x, [map projectTask (filter isActive ts)]))"
  by (simp add: handleAISummary_try_def Let_def getAISummary_active isActive_isIncomplete [symmetric]
      split: postResult.splits)

lemma handleAISummary_result:
  "handleAISummary_try post (tasks s) = (r, p) \<Longrightarrow>
   handleAISummary post s =
     (case r of
        Inr x \<Rightarrow> s\<lparr>isSummaryLoading := False, summaryError := None, aiSummary := x,
                   isAISummaryModalOpen := True\<rparr>
      | Inl e \<Rightarrow> s\<lparr>isSummaryLoading := False,
                   summaryError := Some (js_or (message e) defaultFailure),
                   aiSummary := Some [], isAISummaryModalOpen := True\<rparr>, p)"
  by (simp add: handleAISummary_def Let_def split: sum.splits)

lemma posted_payload:
  "snd (handleAISummary post s) =
     (if filter isActive (tasks s) = [] then [] else [map projectTask (filter isActive (tasks s))])"
proof (cases "handleAISummary_try post (tasks s)")
  case (Pair r p)
  then show ?thesis
    by (simp add: handleAISummary_result [OF Pair] handleAISummary_try_eq
        split: postResult.splits if_splits)
qed

lemma handleAISummary_tasks: "tasks (fst (handleAISummary post s)) = tasks s"
proof (cases "handleAISummary_try post (tasks s)")
  case (Pair r p)
  show ?thesis
    by (simp add: handleAISummary_result [OF Pair] split: sum.splits)
qed

lemma js_or_nonempty: "b \<noteq> [] \<Longrightarrow> js_or a b \<noteq> []"
  by (simp add: js_or_def split: option.splits)

lemmas example_defs =
  reportTask_def shipTask_def reviewTask_def doneTask_def idle_def closedModal_def

section \<open>Claims about the lifecycle\<close>

text \<open>
  C1 (as amended). When the id resolves to no task, or to a task whose status is
  \<open>CANCELLED\<close>, \<^verbatim>\<open>handleStatusChange\<close> takes one of its two early returns whatever the
  requested status is (\<open>CANCELLED\<close> included): it makes no call at all, neither
  \<^verbatim>\<open>onTaskUpdate\<close> nor \<^verbatim>\<open>setConfirmModal\<close>, and it returns no value, so the request
  is dropped silently; the whole state, the task collection and the confirmation slot
  with it, is left as it was.
\<close>

theorem terminal_or_unknown_request_dropped:
  "(case find (\<lambda>t. task_id t = i) (tasks s) of None \<Rightarrow> True | Some t \<Rightarrow> status t = CANCELLED) \<Longrightarrow>
   handleStatusChange (tasks s) now i st = [] \<and> changeStatus now i st s = s"
  by (auto simp: handleStatusChange_def changeStatus_def dispatch_Nil split: option.splits)

theorem terminal_or_unknown_request_dropped_witness:
  "(case find (\<lambda>t. task_id t = ''a'') (tasks (idle [reportTask, shipTask])) of
      None \<Rightarrow> True | Some t \<Rightarrow> status t = CANCELLED)
   \<and> handleStatusChange (tasks (idle [reportTask, shipTask])) 7 ''a'' IN_PROGRESS = []
   \<and> changeStatus 7 ''a'' IN_PROGRESS (idle [reportTask, shipTask]) = idle [reportTask, shipTask]"
proof -
  have h: "(case find (\<lambda>t. task_id t = ''a'') (tasks (idle [reportTask, shipTask])) of
      None \<Rightarrow> True | Some t \<Rightarrow> status t = CANCELLED)"
    by (simp add: example_defs)
  from terminal_or_unknown_request_dropped [OF h, of 7 IN_PROGRESS] h show ?thesis
    by simp
qed

text \<open>
  The claim as stated asks for a \<^verbatim>\<open>Rejected\<close> outcome that is not a silent drop. On a
  cancelled task (id \<open>a\<close>) and on an unknown id (\<open>zz\<close>) the handler makes no call:
  nothing is reported to anyone.
\<close>

theorem rejected_request_is_silent:
  "handleStatusChange [reportTask, shipTask] 7 ''a'' TODO = []
   \<and> handleStatusChange [reportTask, shipTask] 7 ''a'' CANCELLED = []
   \<and> handleStatusChange [reportTask, shipTask] 7 ''zz'' TODO = []"
  by (simp add: handleStatusChange_def example_defs)

text \<open>
  C3. When the id resolves to a task \<open>t\<close> that is not cancelled, a request for
  \<open>CANCELLED\<close> only opens the confirmation modal for that id (the pending
  confirmation) and leaves every task as it is. A click on the confirm button then writes
  \<open>CANCELLED\<close> (with the time of the click) to the task and closes the modal; a click on
  the cancel button closes the modal and leaves the collection, hence the status of
  \<open>t\<close>, unchanged.
\<close>

theorem cancel_request_confirm_discard:
  assumes "find (\<lambda>x. task_id x = i) (tasks s) = Some t" and "status t \<noteq> CANCELLED"
  shows "handleStatusChange (tasks s) now i CANCELLED =
           [SetConfirmModal \<lparr>isOpen = True, taskId = i, newStatus = CANCELLED\<rparr>]
       \<and> changeStatus now i CANCELLED s =
           s\<lparr>confirmModal := \<lparr>isOpen = True, taskId = i, newStatus = CANCELLED\<rparr>\<rparr>
       \<and> tasks (changeStatus now i CANCELLED s) = tasks s
       \<and> (\<exists>s'. clickConfirm now' (changeStatus now i CANCELLED s) = Some s'
             \<and> find (\<lambda>x. task_id x = i) (tasks s') = Some (t\<lparr>status := CANCELLED, updatedAt := now'\<rparr>)
             \<and> confirmModal s' = closedModal)
       \<and> (\<exists>s'. clickCancel now' (changeStatus now i CANCELLED s) = Some s'
             \<and> tasks s' = tasks s
             \<and> find (\<lambda>x. task_id x = i) (tasks s') = Some t
             \<and> confirmModal s' = closedModal)"
proof -
  note req = request_cancel [OF assms, of now]
  have conf: "\<exists>s'. clickConfirm now' (changeStatus now i CANCELLED s) = Some s'
      \<and> find (\<lambda>x. task_id x = i) (tasks s') = Some (t\<lparr>status := CANCELLED, updatedAt := now'\<rparr>)
      \<and> confirmModal s' = closedModal"
    using find_after_update [OF assms(1)] by (simp add: req(2) confirm_click)
  have canc: "\<exists>s'. clickCancel now' (changeStatus now i CANCELLED s) = Some s'
      \<and> tasks s' = tasks s \<and> find (\<lambda>x. task_id x = i) (tasks s') = Some t
      \<and> confirmModal s' = closedModal"
    using assms(1) by (simp add: req(2) cancel_click)
  from req conf canc show ?thesis
    by simp
qed

theorem cancel_request_confirm_discard_witness:
  "find (\<lambda>x. task_id x = ''b'') (tasks (idle [reportTask, shipTask])) = Some shipTask
   \<and> status shipTask \<noteq> CANCELLED
   \<and> changeStatus 7 ''b'' CANCELLED (idle [reportTask, shipTask]) =
       (idle [reportTask, shipTask])\<lparr>confirmModal := \<lparr>isOpen = True, taskId = ''b'', newStatus = CANCELLED\<rparr>\<rparr>
   \<and> (\<exists>s'. clickConfirm 8 (changeStatus 7 ''b'' CANCELLED (idle [reportTask, shipTask])) = Some s'
         \<and> find (\<lambda>x. task_id x = ''b'') (tasks s') = Some (shipTask\<lparr>status := CANCELLED, updatedAt := 8\<rparr>))
   \<and> (\<exists>s'. clickCancel 8 (changeStatus 7 ''b'' CANCELLED (idle [reportTask, shipTask])) = Some s'
         \<and> find (\<lambda>x. task_id x = ''b'') (tasks s') = Some shipTask)"
proof -
  have h1: "find (\<lambda>x. task_id x = ''b'') (tasks (idle [reportTask, shipTask])) = Some shipTask"
    by (simp add: example_defs)
  have h2: "status shipTask \<noteq> CANCELLED"
    by (simp add: shipTask_def)
  from cancel_request_confirm_discard [OF h1 h2, of 7 8] h1 h2 show ?thesis
    by blast
qed

text \<open>
  C4 (as amended). \<^verbatim>\<open>handleConfirmStatusChange\<close> takes no task id and checks nothing.
  While no confirmation is pending the modal is not rendered, so there is no confirm
  button and nothing is committed. While one is pending, a click on the confirm button
  always commits: the pending status and the time of the click are written to every task
  whose id is the pending id, whatever the status of that task is by then, and the slot
  is reset. No outcome is reported and there is no stale-pending check.
\<close>

theorem confirm_commits_pending_unchecked:
  "clickConfirm now s =
     (if isOpen (confirmModal s) then
        Some (s\<lparr>tasks := map (\<lambda>x. if task_id x = taskId (confirmModal s)
                                  then x\<lparr>status := newStatus (confirmModal s), updatedAt := now\<rparr>
                                  else x) (tasks s),
                confirmModal := closedModal\<rparr>)
      else None)"
  by (simp add: clickConfirm_def renderedModal_def ConfirmationModal_def
      handleConfirmStatusChange_def onClose_def dispatch_Cons dispatch_Nil handleTaskUpdate_status)

text \<open>
  The claim as stated asks the confirmation to be rejected when the task changed after
  the request. A cancellation of task \<open>b\<close> is requested at time 1 while it is \<open>TODO\<close>;
  at time 2 the task is moved to \<open>COMPLETED\<close>; the confirmation at time 3 still commits
  \<open>CANCELLED\<close>.
\<close>

theorem stale_confirmation_commits:
  "tasks (changeStatus 2 ''b'' COMPLETED (changeStatus 1 ''b'' CANCELLED (idle [shipTask]))) =
     [shipTask\<lparr>status := COMPLETED, updatedAt := 2\<rparr>]
   \<and> clickConfirm 3 (changeStatus 2 ''b'' COMPLETED (changeStatus 1 ''b'' CANCELLED (idle [shipTask]))) =
     Some (idle [shipTask\<lparr>status := CANCELLED, updatedAt := 3\<rparr>])"
  by (simp add: changeStatus_def handleStatusChange_def dispatch_Cons dispatch_Nil
      handleTaskUpdate_status confirm_click example_defs)

text \<open>
  C5. When the id resolves to a task \<open>t\<close> that is not cancelled and the requested status
  is not \<open>CANCELLED\<close>, \<^verbatim>\<open>handleStatusChange\<close> commits at once: its only call is one
  \<^verbatim>\<open>onTaskUpdate\<close> that carries the new status and the new \<^verbatim>\<open>updatedAt\<close> together,
  and the single resulting state has both fields written in the task (every task of
  another id is untouched, and so is the confirmation slot).
\<close>

theorem commit_status_and_updatedAt_together:
  assumes "find (\<lambda>x. task_id x = i) (tasks s) = Some t" and "status t \<noteq> CANCELLED"
    and "st \<noteq> CANCELLED"
  shows "handleStatusChange (tasks s) now i st = [OnTaskUpdate i [F_status st, F_updatedAt now]]
       \<and> changeStatus now i st s =
           s\<lparr>tasks := map (\<lambda>x. if task_id x = i then x\<lparr>status := st, updatedAt := now\<rparr> else x) (tasks s)\<rparr>
       \<and> find (\<lambda>x. task_id x = i) (tasks (changeStatus now i st s)) =
           Some (t\<lparr>status := st, updatedAt := now\<rparr>)"
proof -
  have calls: "handleStatusChange (tasks s) now i st = [OnTaskUpdate i [F_status st, F_updatedAt now]]"
    using assms by (simp add: handleStatusChange_def)
  have step: "changeStatus now i st s =
      s\<lparr>tasks := map (\<lambda>x. if task_id x = i then x\<lparr>status := st, updatedAt := now\<rparr> else x) (tasks s)\<rparr>"
    by (simp add: changeStatus_def calls dispatch_Cons dispatch_Nil handleTaskUpdate_status)
  show ?thesis
    using calls step find_after_update [OF assms(1)] by simp
qed

theorem commit_status_and_updatedAt_together_witness:
  "find (\<lambda>x. task_id x = ''b'') (tasks (idle [reportTask, shipTask])) = Some shipTask
   \<and> status shipTask \<noteq> CANCELLED \<and> IN_PROGRESS \<noteq> CANCELLED
   \<and> changeStatus 7 ''b'' IN_PROGRESS (idle [reportTask, shipTask]) =
       idle [reportTask, shipTask\<lparr>status := IN_PROGRESS, updatedAt := 7\<rparr>]"
proof -
  have h1: "find (\<lambda>x. task_id x = ''b'') (tasks (idle [reportTask, shipTask])) = Some shipTask"
    by (simp add: example_defs)
  have h2: "status shipTask \<noteq> CANCELLED"
    by (simp add: shipTask_def)
  have h3: "IN_PROGRESS \<noteq> CANCELLED"
    by simp
  from commit_status_and_updatedAt_together [OF h1 h2 h3, of 7] h1 h2 show ?thesis
    by (simp add: example_defs)
qed

text \<open>
  C8. Closing the modal (\<^verbatim>\<open>onClose\<close>, which takes no task id) resets the confirmation
  slot and nothing else: doing it twice gives the state that doing it once gives, and no
  task is changed.
\<close>

theorem discard_idempotent:
  "closeModal (closeModal s) = closeModal s
   \<and> tasks (closeModal s) = tasks s
   \<and> closeModal s = s\<lparr>confirmModal := closedModal\<rparr>"
  by (simp add: closeModal_def onClose_def dispatch_Cons dispatch_Nil)

text \<open>
  C9. The pending confirmation is the one record \<^verbatim>\<open>confirmModal\<close>. When a
  cancellation of task \<open>a\<close> is pending and a cancellation of another task \<open>b\<close> is
  requested, the slot holds \<open>b\<close> alone and the state is the one the second request gives
  on its own: the entry of \<open>a\<close> is gone, though it was neither confirmed nor closed. The
  confirmation that follows cancels \<open>b\<close>, leaves \<open>a\<close> as it was, and leaves nothing
  pending.
\<close>

theorem single_pending_slot_replaced:
  assumes "find (\<lambda>x. task_id x = a) (tasks s) = Some ta" and "status ta \<noteq> CANCELLED"
    and "find (\<lambda>x. task_id x = b) (tasks s) = Some tb" and "status tb \<noteq> CANCELLED"
    and "a \<noteq> b"
  shows "confirmModal (changeStatus n1 a CANCELLED s) =
           \<lparr>isOpen = True, taskId = a, newStatus = CANCELLED\<rparr>
       \<and> changeStatus n2 b CANCELLED (changeStatus n1 a CANCELLED s) =
           s\<lparr>confirmModal := \<lparr>isOpen = True, taskId = b, newStatus = CANCELLED\<rparr>\<rparr>
       \<and> changeStatus n2 b CANCELLED (changeStatus n1 a CANCELLED s) = changeStatus n2 b CANCELLED s
       \<and> (\<exists>s'. clickConfirm n3 (changeStatus n2 b CANCELLED (changeStatus n1 a CANCELLED s)) = Some s'
             \<and> find (\<lambda>x. task_id x = a) (tasks s') = Some ta
             \<and> find (\<lambda>x. task_id x = b) (tasks s') = Some (tb\<lparr>status := CANCELLED, updatedAt := n3\<rparr>)
             \<and> confirmModal s' = closedModal
             \<and> clickConfirm n4 s' = None)"
proof -
  let ?s1 = "changeStatus n1 a CANCELLED s"
  note first = request_cancel [OF assms(1,2), of n1]
  have tasks1: "tasks ?s1 = tasks s"
    by (simp add: first(2))
  have findb: "find (\<lambda>x. task_id x = b) (tasks ?s1) = Some tb"
    by (simp add: tasks1 assms(3))
  note second = request_cancel [OF findb assms(4), of n2]
  have both: "changeStatus n2 b CANCELLED ?s1 =
      s\<lparr>confirmModal := \<lparr>isOpen = True, taskId = b, newStatus = CANCELLED\<rparr>\<rparr>"
    by (simp add: second(2)) (simp add: first(2))
  have alone: "changeStatus n2 b CANCELLED s =
      s\<lparr>confirmModal := \<lparr>isOpen = True, taskId = b, newStatus = CANCELLED\<rparr>\<rparr>"
    by (rule request_cancel(2) [OF assms(3,4)])
  have conf: "\<exists>s'. clickConfirm n3 (changeStatus n2 b CANCELLED ?s1) = Some s'
      \<and> find (\<lambda>x. task_id x = a) (tasks s') = Some ta
      \<and> find (\<lambda>x. task_id x = b) (tasks s') = Some (tb\<lparr>status := CANCELLED, updatedAt := n3\<rparr>)
      \<and> confirmModal s' = closedModal \<and> clickConfirm n4 s' = None"
    using find_after_update [OF assms(3)] assms(1,5)
    by (simp add: both confirm_click find_other_after_update closedModal_def)
  from first(2) both alone conf show ?thesis
    by simp
qed

theorem single_pending_slot_replaced_witness:
  "find (\<lambda>x. task_id x = ''b'') (tasks (idle [shipTask, reviewTask])) = Some shipTask
   \<and> status shipTask \<noteq> CANCELLED
   \<and> find (\<lambda>x. task_id x = ''c'') (tasks (idle [shipTask, reviewTask])) = Some reviewTask
   \<and> status reviewTask \<noteq> CANCELLED \<and> ''b'' \<noteq> ''c''
   \<and> changeStatus 2 ''c'' CANCELLED (changeStatus 1 ''b'' CANCELLED (idle [shipTask, reviewTask])) =
       (idle [shipTask, reviewTask])\<lparr>confirmModal := \<lparr>isOpen = True, taskId = ''c'', newStatus = CANCELLED\<rparr>\<rparr>
   \<and> (\<exists>s'. clickConfirm 3 (changeStatus 2 ''c'' CANCELLED
               (changeStatus 1 ''b'' CANCELLED (idle [shipTask, reviewTask]))) = Some s'
         \<and> find (\<lambda>x. task_id x = ''b'') (tasks s') = Some shipTask)"
proof -
  have h1: "find (\<lambda>x. task_id x = ''b'') (tasks (idle [shipTask, reviewTask])) = Some shipTask"
    by (simp add: example_defs)
  have h2: "status shipTask \<noteq> CANCELLED"
    by (simp add: shipTask_def)
  have h3: "find (\<lambda>x. task_id x = ''c'') (tasks (idle [shipTask, reviewTask])) = Some reviewTask"
    by (simp add: example_defs)
  have h4: "status reviewTask \<noteq> CANCELLED"
    by (simp add: reviewTask_def)
  have h5: "''b'' \<noteq> ''c''"
    by simp
  from single_pending_slot_replaced [OF h1 h2 h3 h4 h5, of 1 2 3 4] h1 h2 h3 h4 show ?thesis
    by blast
qed

section \<open>Claims about the summary\<close>

text \<open>
  C2. When every task of the collection is \<open>COMPLETED\<close> or \<open>CANCELLED\<close>, however many
  there are, \<^verbatim>\<open>handleAISummary\<close> ends with the fixed notice as the summary, with no
  error set (\<^verbatim>\<open>summaryError\<close> is \<^verbatim>\<open>null\<close>), with the loading flag cleared and the
  collection as it was, and it posts nothing to the external capability.
\<close>

theorem no_active_tasks_gives_notice:
  "\<forall>t\<in>set (tasks s). status t = COMPLETED \<or> status t = CANCELLED \<Longrightarrow>
   handleAISummary post s =
     (s\<lparr>isSummaryLoading := False, summaryError := None, aiSummary := Some emptyNotice,
        isAISummaryModalOpen := True\<rparr>, [])"
  by (simp add: handleAISummary_def handleAISummary_try_def filter_isIncomplete_Nil)

theorem no_active_tasks_gives_notice_witness:
  "map status (tasks (idle [reportTask, doneTask])) = [CANCELLED, COMPLETED]
   \<and> handleAISummary timesOut (idle [reportTask, doneTask]) =
       ((idle [reportTask, doneTask])\<lparr>aiSummary := Some emptyNotice, isAISummaryModalOpen := True\<rparr>, [])"
proof -
  have h: "\<forall>t\<in>set (tasks (idle [reportTask, doneTask])). status t = COMPLETED \<or> status t = CANCELLED"
    by (simp add: example_defs)
  from no_active_tasks_gives_notice [OF h, of timesOut] show ?thesis
    by (simp add: example_defs)
qed

text \<open>
  C6. When the collection has a task that is \<open>TODO\<close> or \<open>IN_PROGRESS\<close>, exactly one
  payload is posted, from \<^verbatim>\<open>handleAISummary\<close> as from \<^verbatim>\<open>getAISummary\<close> called on the
  collection itself: the records of the active tasks, in the order of the collection, and
  of no other task. Every record has the keys \<^verbatim>\<open>title\<close>, \<^verbatim>\<open>description\<close>,
  \<^verbatim>\<open>priority\<close>, \<^verbatim>\<open>status\<close> and \<^verbatim>\<open>dueDate\<close> and no other, so none of \<^verbatim>\<open>id\<close>,
  \<^verbatim>\<open>createdAt\<close> and \<^verbatim>\<open>updatedAt\<close>; the description of a task that has none is the
  empty string.
\<close>

theorem payload_is_projected_active_tasks:
  assumes "\<exists>t\<in>set (tasks s). status t = TODO \<or> status t = IN_PROGRESS"
  shows "snd (handleAISummary post s) =
           [map projectTask (filter (\<lambda>t. status t = TODO \<or> status t = IN_PROGRESS) (tasks s))]
       \<and> snd (getAISummary post (tasks s)) = snd (handleAISummary post s)
       \<and> (\<forall>payload\<in>set (snd (handleAISummary post s)). \<forall>r\<in>set payload.
             map fst r = [''title'', ''description'', ''priority'', ''status'', ''dueDate'']
           \<and> ''id'' \<notin> fst ` set r \<and> ''createdAt'' \<notin> fst ` set r \<and> ''updatedAt'' \<notin> fst ` set r)
       \<and> (\<forall>t. map_of (projectTask t) ''title'' = Some (Str (title t))
             \<and> map_of (projectTask t) ''description'' =
                Some (Str (case description t of None \<Rightarrow> [] | Some d \<Rightarrow> d))
             \<and> map_of (projectTask t) ''priority'' = Some (Priority (priority t))
             \<and> map_of (projectTask t) ''status'' = Some (Status (status t))
             \<and> map_of (projectTask t) ''dueDate'' =
                Some (case dueDate t of None \<Rightarrow> Undefined | Some d \<Rightarrow> DateValue d))"
proof -
  have ne: "filter isActive (tasks s) \<noteq> []"
    using assms by (simp add: exists_active)
  have p: "snd (handleAISummary post s) = [map projectTask (filter isActive (tasks s))]"
    using ne by (simp add: posted_payload)
  have g: "snd (getAISummary post (tasks s)) = [map projectTask (filter isActive (tasks s))]"
    using ne by (simp add: getAISummary_active split: postResult.splits)
  have keys: "map fst (projectTask t) = [''title'', ''description'', ''priority'', ''status'', ''dueDate'']" for t
    by (simp add: projectTask_def)
  have excl: "''id'' \<notin> fst ` set (projectTask t) \<and> ''createdAt'' \<notin> fst ` set (projectTask t)
      \<and> ''updatedAt'' \<notin> fst ` set (projectTask t)" for t
    by (simp add: projectTask_def)
  have d: "map_of (projectTask t) ''description'' =
      Some (Str (case description t of None \<Rightarrow> [] | Some d \<Rightarrow> d))" for t
    by (simp add: projectTask_def js_or_def split: option.splits)
  have rest: "map_of (projectTask t) ''title'' = Some (Str (title t))
      \<and> map_of (projectTask t) ''priority'' = Some (Priority (priority t))
      \<and> map_of (projectTask t) ''status'' = Some (Status (status t))
      \<and> map_of (projectTask t) ''dueDate'' =
          Some (case dueDate t of None \<Rightarrow> Undefined | Some d \<Rightarrow> DateValue d)" for t
    by (simp add: projectTask_def)
  show ?thesis
    using p g keys excl d rest by (auto simp: isActive_fun)
qed

theorem payload_is_projected_active_tasks_witness:
  "(\<exists>t\<in>set (tasks (idle [reportTask, shipTask, reviewTask, doneTask])).
       status t = TODO \<or> status t = IN_PROGRESS)
   \<and> snd (handleAISummary noSummary (idle [reportTask, shipTask, reviewTask, doneTask])) =
       [[[(''title'', Str ''Ship release''), (''description'', Str ''v1''),
          (''priority'', Priority High), (''status'', Status TODO), (''dueDate'', DateValue 9)],
         [(''title'', Str ''Review patch''), (''description'', Str []),
          (''priority'', Priority Low), (''status'', Status IN_PROGRESS), (''dueDate'', Undefined)]]]"
proof -
  have h: "\<exists>t\<in>set (tasks (idle [reportTask, shipTask, reviewTask, doneTask])).
      status t = TODO \<or> status t = IN_PROGRESS"
    by (simp add: example_defs)
  from payload_is_projected_active_tasks [OF h, of noSummary] h show ?thesis
    by (simp add: example_defs projectTask_def js_or_def)
qed

text \<open>
  C7 (as amended). \<^verbatim>\<open>handleAISummary\<close> never changes the task collection. When there is
  an active task and the request to the external capability is rejected (the call raised
  or timed out), the rejection is caught: \<^verbatim>\<open>summaryError\<close> is set to the message of the
  error, or to the fixed default text when the message is missing or empty, so it is
  never empty; the loading flag is cleared.
\<close>

theorem rejected_request_becomes_failure:
  "tasks (fst (handleAISummary post s)) = tasks s
   \<and> ((\<exists>t\<in>set (tasks s). status t = TODO \<or> status t = IN_PROGRESS)
        \<and> post (map projectTask (filter isActive (tasks s))) = Rejects m \<longrightarrow>
      handleAISummary post s =
        (s\<lparr>isSummaryLoading := False, summaryError := Some (js_or m defaultFailure),
           aiSummary := Some [], isAISummaryModalOpen := True\<rparr>,
         [map projectTask (filter isActive (tasks s))])
      \<and> js_or m defaultFailure \<noteq> [])"
proof -
  have "handleAISummary post s =
        (s\<lparr>isSummaryLoading := False, summaryError := Some (js_or m defaultFailure),
           aiSummary := Some [], isAISummaryModalOpen := True\<rparr>,
         [map projectTask (filter isActive (tasks s))])"
    if "filter isActive (tasks s) \<noteq> []"
      and "post (map projectTask (filter isActive (tasks s))) = Rejects m"
  proof -
    have "handleAISummary_try post (tasks s) =
        (Inl (RequestFailed m), [map projectTask (filter isActive (tasks s))])"
      using that by (simp add: handleAISummary_try_eq)
    from handleAISummary_result [OF this] show ?thesis by simp
  qed
  moreover have "js_or m defaultFailure \<noteq> []"
    by (rule js_or_nonempty) (simp add: defaultFailure_def)
  ultimately show ?thesis
    by (simp add: handleAISummary_tasks exists_active)
qed

theorem rejected_request_becomes_failure_witness:
  "(\<exists>t\<in>set (tasks (idle [shipTask, doneTask])). status t = TODO \<or> status t = IN_PROGRESS)
   \<and> timesOut (map projectTask (filter isActive (tasks (idle [shipTask, doneTask])))) =
       Rejects (Some ''timeout of 1000ms exceeded'')
   \<and> handleAISummary timesOut (idle [shipTask, doneTask]) =
       ((idle [shipTask, doneTask])\<lparr>summaryError := Some ''timeout of 1000ms exceeded'',
           isAISummaryModalOpen := True\<rparr>,
        [[projectTask shipTask]])"
proof -
  have h1: "\<exists>t\<in>set (tasks (idle [shipTask, doneTask])). status t = TODO \<or> status t = IN_PROGRESS"
    by (simp add: example_defs)
  have h2: "timesOut (map projectTask (filter isActive (tasks (idle [shipTask, doneTask])))) =
      Rejects (Some ''timeout of 1000ms exceeded'')"
    by (simp add: timesOut_def)
  from rejected_request_becomes_failure [of timesOut "idle [shipTask, doneTask]"
      "Some ''timeout of 1000ms exceeded''"] h1 h2
  show ?thesis
    by (simp add: example_defs isActive_def js_or_def)
qed

text \<open>
  The claim as stated also asks for a failure when the response is unusable. With one
  active task and a response that carries no summary, no error is set: the missing value
  is stored as the summary. The same holds for a response whose summary is empty.
\<close>

theorem unusable_response_is_not_failure:
  "summaryError (fst (handleAISummary noSummary (idle [shipTask]))) = None
   \<and> aiSummary (fst (handleAISummary noSummary (idle [shipTask]))) = None
   \<and> snd (handleAISummary noSummary (idle [shipTask])) = [[projectTask shipTask]]"
  by (simp add: handleAISummary_def handleAISummary_try_def getAISummary_def noSummary_def
      isIncomplete_def isActive_def example_defs)

text \<open>
  C10. The \<^verbatim>\<open>try\<close> block of \<^verbatim>\<open>handleAISummary\<close> never ends with the error
  \<^verbatim>\<open>No active tasks to summarize\<close> of \<^verbatim>\<open>getAISummary\<close>: the block calls
  \<^verbatim>\<open>getAISummary\<close> only on a non-empty list of its own filter, filtering that list again
  gives the same list, and so the block either stores the notice without a call or posts
  the records of that list and ends with the outcome of the request.
\<close>

theorem no_active_tasks_error_unreachable:
  "fst (handleAISummary_try post ts) \<noteq> Inl NoActiveTasks
   \<and> filter isActive (filter isIncomplete ts) = filter isIncomplete ts
   \<and> handleAISummary_try post ts =
       (if filter isIncomplete ts = [] then (Inr (Some emptyNotice), [])
        else case post (map projectTask (filter isIncomplete ts)) of
          Rejects m \<Rightarrow> (Inl (RequestFailed m), [map projectTask (filter isIncomplete ts)])
        | Resolves x \<Rightarrow> (Inr x, [map projectTask (filter isIncomplete ts)]))"
  by (simp add: handleAISummary_try_eq isActive_isIncomplete split: postResult.splits)

end
